theory Spec2Isabelle
  imports Main
begin

section \<open>Python values, strings and dictionaries\<close>

text \<open>
  The enrichment bot is Python. A value that reaches the pipeline is a \<open>str\<close>, or one of
  the other values that \<open>pandas.read_csv\<close> and \<open>json.loads\<close> hand out: \<open>None\<close>, a
  \<open>bool\<close>, an \<open>int\<close>, or the float \<open>nan\<close> that pandas puts in a blank cell.
  A \<open>str\<close> is a list of characters, one list element per character; the model covers
  ASCII text, and a character above 127 is an ordinary symbol (no letter, no space).
\<close>

datatype pyval = PNone | PBool bool | PInt int | PNaN | PStr string

datatype py_error = TypeError | AttributeError | KeyError | ValueError string | OSError

text \<open>A \<open>dict\<close> keeps its keys in insertion order: an association list with distinct keys.\<close>

type_synonym pydict = "(string \<times> pyval) list"

definition digit_char :: "nat \<Rightarrow> char" where
  "digit_char d = ''0123456789'' ! d"

function str_nat :: "nat \<Rightarrow> string" where
  "str_nat n = (if n < 10 then [digit_char n] else str_nat (n div 10) @ [digit_char (n mod 10)])"
  by pat_completeness auto
termination
  by (relation "measure id") auto

definition str_int :: "int \<Rightarrow> string" where
  "str_int i = (if i < 0 then CHR ''-'' # str_nat (nat (- i)) else str_nat (nat i))"

text \<open>\<open>str(v)\<close>, which is what an f-string puts in place of \<open>{v}\<close>.\<close>

fun py_str :: "pyval \<Rightarrow> string" where
  "py_str PNone = ''None''"
| "py_str (PBool b) = (if b then ''True'' else ''False'')"
| "py_str (PInt i) = str_int i"
| "py_str PNaN = ''nan''"
| "py_str (PStr s) = s"

definition lower_char :: "char \<Rightarrow> char" where
  "lower_char c =
     (case map_of (zip ''ABCDEFGHIJKLMNOPQRSTUVWXYZ'' ''abcdefghijklmnopqrstuvwxyz'') c of
        Some d \<Rightarrow> d
      | None \<Rightarrow> c)"

text \<open>\<open>s.lower()\<close>\<close>

definition py_lower :: "string \<Rightarrow> string" where
  "py_lower s = map lower_char s"

text \<open>\<open>s.startswith(p)\<close>\<close>

fun starts_with :: "string \<Rightarrow> string \<Rightarrow> bool" where
  "starts_with s [] = True"
| "starts_with [] (p # ps) = False"
| "starts_with (c # cs) (p # ps) = (c = p \<and> starts_with cs ps)"

text \<open>\<open>k in s\<close> on two strings: \<open>k\<close> occurs in \<open>s\<close> as a contiguous piece.\<close>

fun py_in :: "string \<Rightarrow> string \<Rightarrow> bool" where
  "py_in k [] = (k = [])"
| "py_in k (c # cs) = (starts_with (c # cs) k \<or> py_in k cs)"

text \<open>
  \<open>s.replace(old, new)\<close>: every occurrence, left to right, without overlap. The
  source calls it with the constants \<open>' '\<close> and \<open>'.csv'\<close> for \<open>old\<close>, never with the empty
  string, which is left unchanged here.
\<close>

function py_replace :: "string \<Rightarrow> string \<Rightarrow> string \<Rightarrow> string" where
  "py_replace old new [] = []"
| "py_replace old new (c # cs) =
     (if old \<noteq> [] \<and> starts_with (c # cs) old
      then new @ py_replace old new (drop (length old) (c # cs))
      else c # py_replace old new cs)"
  by pat_completeness auto
termination
  by (relation "measure (\<lambda>(old, new, s). length s)") auto

text \<open>\<open>str.isspace\<close> on one ASCII character; the same set is the regular expression's \<open>\s\<close>.\<close>

definition is_space :: "char \<Rightarrow> bool" where
  "is_space c = (c \<in> set [CHR '' '', CHR 0x09, CHR 0x0A, CHR 0x0B, CHR 0x0C, CHR 0x0D,
                            CHR 0x1C, CHR 0x1D, CHR 0x1E, CHR 0x1F])"

text \<open>The regular expression's \<open>\w\<close> on one ASCII character.\<close>

definition is_word_char :: "char \<Rightarrow> bool" where
  "is_word_char c =
     (c \<in> set ''abcdefghijklmnopqrstuvwxyzABCDEFGHIJKLMNOPQRSTUVWXYZ0123456789_'')"

text \<open>\<open>s.strip()\<close>\<close>

definition py_strip :: "string \<Rightarrow> string" where
  "py_strip s = rev (dropWhile is_space (rev (dropWhile is_space s)))"

definition is_linebreak :: "char \<Rightarrow> bool" where
  "is_linebreak c = (c \<in> set [CHR 0x0A, CHR 0x0B, CHR 0x0C, CHR 0x0D, CHR 0x1C, CHR 0x1D, CHR 0x1E])"

text \<open>
  \<open>s.splitlines()\<close>: the text is cut at every line boundary, \<open>\r\n\<close> counting as one,
  and a boundary at the very end opens no further line. The first argument is the line
  read so far, reversed.
\<close>

fun splitlines_from :: "string \<Rightarrow> string \<Rightarrow> string list" where
  "splitlines_from cur [] = (if cur = [] then [] else [rev cur])"
| "splitlines_from cur [c] =
     (if is_linebreak c then [rev cur] else [rev (c # cur)])"
| "splitlines_from cur (c # d # cs) =
     (if c = CHR 0x0D \<and> d = CHR 0x0A then rev cur # splitlines_from [] cs
      else if is_linebreak c then rev cur # splitlines_from [] (d # cs)
      else splitlines_from (c # cur) (d # cs))"

definition py_splitlines :: "string \<Rightarrow> string list" where
  "py_splitlines s = splitlines_from [] s"

text \<open>\<open>s.split("  ")\<close>: cut at every pair of spaces, left to right.\<close>

fun split_from :: "string \<Rightarrow> string \<Rightarrow> string list" where
  "split_from cur [] = [rev cur]"
| "split_from cur [c] = [rev (c # cur)]"
| "split_from cur (c # d # cs) =
     (if c = CHR '' '' \<and> d = CHR '' '' then rev cur # split_from [] cs
      else split_from (c # cur) (d # cs))"

definition split_two_spaces :: "string \<Rightarrow> string list" where
  "split_two_spaces s = split_from [] s"

text \<open>\<open>sep.join(xs)\<close>\<close>

fun py_join :: "string \<Rightarrow> string list \<Rightarrow> string" where
  "py_join sep [] = []"
| "py_join sep [x] = x"
| "py_join sep (x # y # ys) = x @ sep @ py_join sep (y # ys)"

text \<open>\<open>d.get(k, default)\<close>\<close>

definition dict_get :: "pydict \<Rightarrow> string \<Rightarrow> pyval \<Rightarrow> pyval" where
  "dict_get d k dflt = (case map_of d k of Some v \<Rightarrow> v | None \<Rightarrow> dflt)"

text \<open>\<open>d[k] = v\<close>: a key that is present keeps its place, a new key goes to the end.\<close>

fun dict_set :: "pydict \<Rightarrow> string \<Rightarrow> pyval \<Rightarrow> pydict" where
  "dict_set [] k v = [(k, v)]"
| "dict_set ((k', v') # d) k v =
     (if k' = k then (k, v) # d else (k', v') # dict_set d k v)"

text \<open>\<open>d.update(other)\<close>\<close>

definition dict_update :: "pydict \<Rightarrow> pydict \<Rightarrow> pydict" where
  "dict_update d other = foldl (\<lambda>acc (k, v). dict_set acc k v) d other"

text \<open>Truth value of an optional string, as in \<open>if not self.gemini_api_key\<close>.\<close>

definition truthy :: "string option \<Rightarrow> bool" where
  "truthy k = (case k of None \<Rightarrow> False | Some s \<Rightarrow> s \<noteq> [])"

section \<open>The outside world\<close>

text \<open>
  Everything the pipeline asks of the network, the parsers and the file system is a field
  of the world it runs in; a call that raises is \<open>None\<close> (or \<open>False\<close> for a write).
  \<^item> \<open>head_status url\<close>: the status code of \<open>session.head(url, timeout=2)\<close>;
  \<^item> \<open>page_text url\<close>: \<open>session.get(url, timeout=5)\<close>, \<open>raise_for_status()\<close>, the
    BeautifulSoup parse, the removal of script, style, nav, footer and header elements and
    \<open>get_text()\<close>, as one step;
  \<^item> \<open>gemini_reply url prompt\<close> and \<open>openai_reply key prompt\<close>: the POST request,
    \<open>raise_for_status()\<close>, \<open>response.json()\<close> and the path to the text of the first
    candidate or choice;
  \<^item> \<open>json_loads\<close>: \<open>json.loads\<close> on a text that starts with an opening brace, so a
    successful parse is a \<open>dict\<close>;
  \<^item> \<open>read_csv\<close>, \<open>to_csv\<close>: \<open>pandas.read_csv\<close> and \<open>DataFrame.to_csv\<close>;
  \<^item> \<open>time_now\<close>: \<open>int(time.time())\<close>.

  The world gives the same answer to the same question throughout a run; within the
  enrichment of one company no question is asked twice. Logging and the pause after each
  company change no result and are left out, and so are the exceptions that are no
  \<open>Exception\<close> (a keyboard interrupt), which no handler of the source is meant to catch.
\<close>

text \<open>
  A \<open>DataFrame\<close> read from a file: the column labels and the rows, each row with its
  index label and its cells in column order. \<open>read_csv\<close> numbers the rows 0, 1, 2 and
  so on, unless the data rows have one field more than the header: then the first field
  of a row is its label. pandas fills the cells a short row lacks with \<open>nan\<close>.
\<close>

record dataframe =
  columns :: "string list"
  rows :: "(pyval \<times> pyval list) list"

datatype csv_read = NotFound | ReadFailed py_error | Table dataframe

record world =
  head_status :: "string \<Rightarrow> int option"
  page_text :: "string \<Rightarrow> string option"
  gemini_reply :: "string \<Rightarrow> string \<Rightarrow> string option"
  openai_reply :: "string \<Rightarrow> string \<Rightarrow> string option"
  json_loads :: "string \<Rightarrow> pydict option"
  read_csv :: "string \<Rightarrow> csv_read"
  to_csv :: "string \<Rightarrow> pydict list \<Rightarrow> bool"
  time_now :: int

text \<open>The two credentials of \<open>CompanyEnricher.__init__\<close>.\<close>

record enricher =
  gemini_api_key :: "string option"
  openai_api_key :: "string option"

section \<open>CompanyEnricher\<close>

subsection \<open>Website resolution\<close>

definition is_website_accessible :: "world \<Rightarrow> string \<Rightarrow> bool" where
  "is_website_accessible w url =
     (case head_status w url of
        Some status_code \<Rightarrow> status_code = 200
      | None \<Rightarrow> False)"

text \<open>\<open>re.sub(r'[^\w\s]', '', company_name)\<close> on a \<open>str\<close>.\<close>

definition clean_name_of :: "string \<Rightarrow> string" where
  "clean_name_of s = filter (\<lambda>c. is_word_char c \<or> is_space c) s"

text \<open>\<open>name.lower().replace(' ', '')\<close>\<close>

definition squash :: "string \<Rightarrow> string" where
  "squash s = py_replace '' '' [] (py_lower s)"

definition domain_patterns :: "string \<Rightarrow> string list" where
  "domain_patterns clean_name =
     [squash clean_name @ ''.com'',
      squash clean_name @ ''.co'',
      squash clean_name @ ''.io'',
      ''www.'' @ squash clean_name @ ''.com'']"

text \<open>
  The loop over the patterns. Both branches of the conditional that builds \<open>test_url\<close>
  are the same expression.
\<close>

fun first_accessible :: "world \<Rightarrow> string list \<Rightarrow> string option" where
  "first_accessible w [] = None"
| "first_accessible w (pattern # rest) =
     (let test_url = (if \<not> starts_with pattern ''www'' then ''https://'' @ pattern
                      else ''https://'' @ pattern)
      in if is_website_accessible w test_url then Some test_url
         else first_accessible w rest)"

text \<open>
  The body of the \<open>try\<close>: \<open>re.sub\<close> raises \<open>TypeError\<close> on a value that is no \<open>str\<close>.
\<close>

definition find_website_try :: "world \<Rightarrow> pyval \<Rightarrow> py_error + string" where
  "find_website_try w company_name =
     (case company_name of
        PStr s \<Rightarrow>
          (let clean_name = clean_name_of s
           in case first_accessible w (domain_patterns clean_name) of
                Some test_url \<Rightarrow> Inr test_url
              | None \<Rightarrow> Inr (''https://www.'' @ squash clean_name @ ''.com''))
      | _ \<Rightarrow> Inl TypeError)"

text \<open>
  The \<open>except\<close> handler builds its URL with \<open>company_name.lower()\<close>, which raises
  \<open>AttributeError\<close> on a value that is no \<open>str\<close>; nothing catches it there.
\<close>

definition find_website_handler :: "pyval \<Rightarrow> py_error + string" where
  "find_website_handler company_name =
     (case company_name of
        PStr s \<Rightarrow> Inr (''https://www.'' @ squash s @ ''.com'')
      | _ \<Rightarrow> Inl AttributeError)"

definition find_company_website :: "world \<Rightarrow> pyval \<Rightarrow> py_error + string" where
  "find_company_website w company_name =
     (case find_website_try w company_name of
        Inr url \<Rightarrow> Inr url
      | Inl e \<Rightarrow> find_website_handler company_name)"

subsection \<open>Content retrieval\<close>

text \<open>
  The three lines that clean the text: strip every line, cut it at double spaces, strip
  the pieces, drop the empty ones and join the rest with single spaces.
\<close>

definition clean_text :: "string \<Rightarrow> string" where
  "clean_text text =
     (let lines = map py_strip (py_splitlines text);
          chunks = map py_strip (concat (map split_two_spaces lines))
      in py_join '' '' (filter (\<lambda>chunk. chunk \<noteq> []) chunks))"

definition scrape_website_content :: "world \<Rightarrow> string \<Rightarrow> string" where
  "scrape_website_content w url =
     (case page_text w url of
        Some raw \<Rightarrow>
          (let text = clean_text raw
           in if length text > 2000 then take 2000 text else text)
      | None \<Rightarrow> [])"

subsection \<open>Analysis\<close>

definition any_keyword :: "string list \<Rightarrow> string \<Rightarrow> bool" where
  "any_keyword keywords content_lower = list_ex (\<lambda>keyword. py_in keyword content_lower) keywords"

definition detect_industry :: "string \<Rightarrow> string" where
  "detect_industry website_content =
     (let content_lower = py_lower website_content
      in if any_keyword [''software'', ''tech'', ''ai'', ''saas'', ''app''] content_lower
           then ''Technology''
         else if any_keyword [''financial'', ''banking'', ''fintech''] content_lower
           then ''Finance''
         else if any_keyword [''health'', ''medical'', ''healthcare''] content_lower
           then ''Healthcare''
         else if any_keyword [''retail'', ''ecommerce'', ''shopping''] content_lower
           then ''Retail''
         else ''Business Services'')"

definition estimate_size :: "string \<Rightarrow> string" where
  "estimate_size website_content =
     (if length website_content > 2000 then ''large''
      else if length website_content > 1000 then ''medium''
      else ''small'')"

text \<open>
  \<open>fallback_analysis\<close>. The name is only formatted into two strings, so any value
  will do; the content is a \<open>str\<close>.
\<close>

definition fallback_analysis :: "pyval \<Rightarrow> string \<Rightarrow> pydict" where
  "fallback_analysis company_name website_content =
     (let industry = detect_industry website_content;
          company_size = estimate_size website_content
      in [(''summary'',
             PStr (py_str company_name @ '' is a '' @ py_lower industry @ '' company.'')),
          (''target_customer'', PStr ''Businesses and consumers''),
          (''industry'', PStr industry),
          (''company_size'', PStr company_size),
          (''automation_pitch'',
             PStr (''AI chatbot and process automation for '' @ py_str company_name))])"

text \<open>
  \<open>re.search(r'\{.*\}', content, re.DOTALL)\<close>: the match runs from the first opening
  brace to the last closing brace behind it.
\<close>

definition json_match :: "string \<Rightarrow> string option" where
  "json_match content =
     (let from_brace = dropWhile (\<lambda>c. c \<noteq> CHR ''{'') content;
          matched = rev (dropWhile (\<lambda>c. c \<noteq> CHR ''}'') (rev from_brace))
      in if matched = [] then None else Some matched)"

definition newline :: char where
  "newline = CHR 0x0A"

definition gemini_url :: "string \<Rightarrow> string" where
  "gemini_url key =
     ''https://generativelanguage.googleapis.com/v1beta/models/gemini-pro:generateContent?key=''
       @ key"

definition gemini_prompt :: "pyval \<Rightarrow> string \<Rightarrow> string" where
  \<open>gemini_prompt company_name website_content =
     py_join [newline]
       ['''',
        ''            Company: '' @ py_str company_name,
        ''            Content: '' @ take 1500 website_content,
        ''            '',
        ''            Provide JSON only:'',
        ''            {'',
        ''                "summary": "Brief 1-sentence summary",'',
        ''                "target_customer": "Main target market", '',
        ''                "industry": "Industry category",'',
        ''                "company_size": "startup/small/medium/large",'',
        ''                "automation_pitch": "Quick AI automation idea"'',
        ''            }'',
        ''            '']\<close>

definition openai_prompt :: "pyval \<Rightarrow> string \<Rightarrow> string" where
  \<open>openai_prompt company_name website_content =
     py_join [newline]
       ['''',
        ''            Company: '' @ py_str company_name,
        ''            Content: '' @ take 1500 website_content,
        ''            '',
        ''            JSON response only:'',
        ''            {'',
        ''                "summary": "Brief summary",'',
        ''                "target_customer": "Main target",'',
        ''                "industry": "Industry",'',
        ''                "company_size": "startup/small/medium/large", '',
        ''                "automation_pitch": "AI automation idea"'',
        ''            }'',
        ''            '']\<close>

text \<open>
  \<open>analyze_with_gemini\<close>. A request that raises, a reply without a brace pair and a
  fragment that \<open>json.loads\<close> rejects all end in \<open>fallback_analysis\<close>; a fragment that
  parses is returned as it is.
\<close>

definition analyze_with_gemini :: "world \<Rightarrow> enricher \<Rightarrow> pyval \<Rightarrow> string \<Rightarrow> pydict" where
  "analyze_with_gemini w e company_name website_content =
     (if \<not> truthy (gemini_api_key e) then fallback_analysis company_name website_content
      else
        case gemini_reply w (gemini_url (the (gemini_api_key e)))
               (gemini_prompt company_name website_content) of
          None \<Rightarrow> fallback_analysis company_name website_content
        | Some content \<Rightarrow>
            (case json_match content of
               Some fragment \<Rightarrow>
                 (case json_loads w fragment of
                    Some analysis \<Rightarrow> analysis
                  | None \<Rightarrow> fallback_analysis company_name website_content)
             | None \<Rightarrow> fallback_analysis company_name website_content))"

definition analyze_with_openai :: "world \<Rightarrow> enricher \<Rightarrow> pyval \<Rightarrow> string \<Rightarrow> pydict" where
  "analyze_with_openai w e company_name website_content =
     (if \<not> truthy (openai_api_key e) then fallback_analysis company_name website_content
      else
        case openai_reply w (the (openai_api_key e))
               (openai_prompt company_name website_content) of
          None \<Rightarrow> fallback_analysis company_name website_content
        | Some content \<Rightarrow>
            (case json_match content of
               Some fragment \<Rightarrow>
                 (case json_loads w fragment of
                    Some analysis \<Rightarrow> analysis
                  | None \<Rightarrow> fallback_analysis company_name website_content)
             | None \<Rightarrow> fallback_analysis company_name website_content))"

subsection \<open>Enriching one company\<close>


definition initial_result :: "pyval \<Rightarrow> pydict" where
  "initial_result company_name =
     [(''company_name'', company_name),
      (''website'', PStr []),
      (''industry'', PStr []),
      (''company_size'', PStr []),
      (''summary_from_llm'', PStr []),
      (''target_customer'', PStr []),
      (''automation_pitch_from_llm'', PStr [])]"

text \<open>The \<open>result.update({...})\<close> that follows each analysis, with its \<open>.get\<close> defaults.\<close>

definition merge_analysis :: "pydict \<Rightarrow> pydict \<Rightarrow> pydict" where
  "merge_analysis result analysis =
     dict_update result
       [(''industry'', dict_get analysis ''industry'' (PStr ''Unknown'')),
        (''company_size'', dict_get analysis ''company_size'' (PStr ''Unknown'')),
        (''summary_from_llm'', dict_get analysis ''summary'' (PStr ''No summary available'')),
        (''target_customer'', dict_get analysis ''target_customer'' (PStr ''Unknown'')),
        (''automation_pitch_from_llm'',
           dict_get analysis ''automation_pitch'' (PStr ''Custom AI solution available''))]"

text \<open>
  \<open>self.fallback_analysis(company_name, company_name)\<close>: the name stands in for the
  content, and \<open>website_content.lower()\<close> raises \<open>AttributeError\<close> unless it is a \<open>str\<close>.
\<close>

definition fallback_on_name :: "pyval \<Rightarrow> py_error + pydict" where
  "fallback_on_name company_name =
     (case company_name of
        PStr s \<Rightarrow> Inr (fallback_analysis company_name s)
      | _ \<Rightarrow> Inl AttributeError)"

text \<open>
  The body of the \<open>try\<close> in \<open>enrich_company\<close>. It works on the dictionary \<open>result\<close>
  and returns it as it stands when the body ends or raises, with the exception if any.
\<close>

definition enrich_try :: "world \<Rightarrow> enricher \<Rightarrow> pyval \<Rightarrow> pydict \<Rightarrow> py_error option \<times> pydict" where
  "enrich_try w e company_name result =
     (case find_company_website w company_name of
        Inl err \<Rightarrow> (Some err, result)
      | Inr website \<Rightarrow>
          if website \<noteq> [] then
            (let result1 = dict_set result ''website'' (PStr website);
                 content = scrape_website_content w website
             in if content \<noteq> [] then
                  (let analysis =
                         (if truthy (gemini_api_key e)
                            then analyze_with_gemini w e company_name content
                          else if truthy (openai_api_key e)
                            then analyze_with_openai w e company_name content
                          else fallback_analysis company_name content)
                   in (None, merge_analysis result1 analysis))
                else
                  (case fallback_on_name company_name of
                     Inl err \<Rightarrow> (Some err, result1)
                   | Inr analysis \<Rightarrow> (None, merge_analysis result1 analysis)))
          else
            (case fallback_on_name company_name of
               Inl err \<Rightarrow> (Some err, result)
             | Inr analysis \<Rightarrow> (None, merge_analysis result analysis)))"

text \<open>The \<open>except\<close> handler of \<open>enrich_company\<close>.\<close>

definition enrich_handler :: "pyval \<Rightarrow> pydict \<Rightarrow> pydict" where
  "enrich_handler company_name result =
     dict_update result
       [(''industry'', PStr ''Unknown''),
        (''company_size'', PStr ''Unknown''),
        (''summary_from_llm'', PStr (''Error processing '' @ py_str company_name)),
        (''target_customer'', PStr ''Unknown''),
        (''automation_pitch_from_llm'', PStr ''Please contact us for custom solution'')]"

text \<open>
  \<open>enrich_company\<close>; the pause of half a second before it returns is left out. The
  result is a sum so that its callers can handle an exception, as the source's do.
\<close>

definition enrich_company :: "world \<Rightarrow> enricher \<Rightarrow> pyval \<Rightarrow> py_error + pydict" where
  "enrich_company w e company_name =
     (case enrich_try w e company_name (initial_result company_name) of
        (None, result) \<Rightarrow> Inr result
      | (Some err, result) \<Rightarrow> Inr (enrich_handler company_name result))"

subsection \<open>The batch runner\<close>

text \<open>\<open>row['company_name']\<close>: the cell under the label, \<open>KeyError\<close> without the label.\<close>

fun index_of :: "string \<Rightarrow> string list \<Rightarrow> nat option" where
  "index_of label [] = None"
| "index_of label (c # cs) =
     (if c = label then Some 0 else map_option Suc (index_of label cs))"

definition row_get :: "dataframe \<Rightarrow> pyval list \<Rightarrow> string \<Rightarrow> py_error + pyval" where
  "row_get df row label =
     (case index_of label (columns df) of
        None \<Rightarrow> Inl KeyError
      | Some i \<Rightarrow> Inr (if i < length row then row ! i else PNaN))"

text \<open>
  What the run does to the outside, in order: the calls of \<open>enrich_company\<close> and the
  files written.
\<close>

datatype effect = Enrich pyval | Write string

record run_state =
  enriched_data :: "pydict list"
  trace :: "effect list"

text \<open>The record appended when \<open>enrich_company\<close> raises.\<close>

definition basic_record :: "pyval \<Rightarrow> pydict" where
  "basic_record company_name =
     [(''company_name'', company_name),
      (''website'', PStr ''Unknown''),
      (''industry'', PStr ''Unknown''),
      (''company_size'', PStr ''Unknown''),
      (''summary_from_llm'', PStr ''Error processing company''),
      (''target_customer'', PStr ''Unknown''),
      (''automation_pitch_from_llm'', PStr ''Please contact us for custom solution'')]"

text \<open>The \<open>try\<close> and \<open>except\<close> inside the loop: one record for the company, whatever happens.\<close>

definition enrich_one :: "world \<Rightarrow> enricher \<Rightarrow> pyval \<Rightarrow> pydict" where
  "enrich_one w e company_name =
     (case enrich_company w e company_name of
        Inr enriched_company \<Rightarrow> enriched_company
      | Inl err \<Rightarrow> basic_record company_name)"

text \<open>
  \<open>idx + 1\<close> on an index label: a number has a successor (\<open>True\<close> counts as 1, and
  \<open>nan + 1\<close> is \<open>nan\<close>), a \<open>str\<close> or \<open>None\<close> raises \<open>TypeError\<close>.
\<close>

fun add_one :: "pyval \<Rightarrow> py_error + pyval" where
  "add_one (PInt i) = Inr (PInt (i + 1))"
| "add_one (PBool b) = Inr (PInt (if b then 2 else 1))"
| "add_one PNaN = Inr PNaN"
| "add_one (PStr s) = Inl TypeError"
| "add_one PNone = Inl TypeError"

text \<open>
  The loop \<open>for idx, row in df.iterrows()\<close>, on the rows still to do. The line that
  logs the progress stands between the read of the cell and the \<open>try\<close>; it computes
  \<open>idx + 1\<close>, and what that raises leaves the loop and \<open>process_csv\<close>.
\<close>

fun enrich_rows ::
  "world \<Rightarrow> enricher \<Rightarrow> dataframe \<Rightarrow> (pyval \<times> pyval list) list \<Rightarrow> run_state
     \<Rightarrow> py_error option \<times> run_state"
where
  "enrich_rows w e df [] st = (None, st)"
| "enrich_rows w e df ((idx, row) # rest) st =
     (case row_get df row ''company_name'' of
        Inl err \<Rightarrow> (Some err, st)
      | Inr company_name \<Rightarrow>
          (case add_one idx of
             Inl err \<Rightarrow> (Some err, st)
           | Inr position \<Rightarrow>
               enrich_rows w e df rest
                 \<lparr>enriched_data = enriched_data st @ [enrich_one w e company_name],
                  trace = trace st @ [Enrich company_name]\<rparr>))"

datatype 'a outcome = Returned 'a | Raised py_error

text \<open>The name of the output file, and the name tried when writing it fails.\<close>

definition output_name :: "string \<Rightarrow> string option \<Rightarrow> string" where
  "output_name input_file output_file_arg =
     (case output_file_arg of
        None \<Rightarrow> py_replace ''.csv'' ''_enriched.csv'' input_file
      | Some name \<Rightarrow> name)"

definition backup_name :: "world \<Rightarrow> string" where
  "backup_name w = ''enriched_companies_backup_'' @ str_int (time_now w) @ ''.csv''"

text \<open>
  \<open>process_csv\<close>: the outcome (\<open>None\<close> for a missing input file, the result frame as the
  list of its records otherwise) and the trace of the run. An exception of the second
  write is caught nowhere.
\<close>

definition process_csv ::
  "world \<Rightarrow> enricher \<Rightarrow> string \<Rightarrow> string option \<Rightarrow> pydict list option outcome \<times> effect list"
where
  "process_csv w e input_file output_file_arg =
     (let output_file = output_name input_file output_file_arg
      in case read_csv w input_file of
           NotFound \<Rightarrow> (Returned None, [])
         | ReadFailed err \<Rightarrow> (Raised err, [])
         | Table df \<Rightarrow>
             if ''company_name'' \<notin> set (columns df)
             then (Raised (ValueError ''CSV must contain 'company_name' column''), [])
             else
               (case enrich_rows w e df (rows df) \<lparr>enriched_data = [], trace = []\<rparr> of
                  (Some err, st) \<Rightarrow> (Raised err, trace st)
                | (None, st) \<Rightarrow>
                    (let result_df = enriched_data st
                     in if to_csv w output_file result_df
                        then (Returned (Some result_df), trace st @ [Write output_file])
                        else
                          (let backup_file = backup_name w
                           in if to_csv w backup_file result_df
                              then (Returned (Some result_df), trace st @ [Write backup_file])
                              else (Raised OSError, trace st)))))"

section \<open>The web interface\<close>

text \<open>
  Of the Streamlit script, the part of \<open>main\<close> that takes the upload: the preview with its
  check of the columns, and the gate in front of \<open>process_companies\<close>. The messages are
  those of \<open>st.error\<close>, \<open>st.info\<close>, \<open>st.success\<close> and \<open>st.warning\<close>; tables, metrics and
  the welcome page are not modelled.
\<close>

datatype ui_message = Error string | Info string | Success string | Warning string

datatype upload = NoUpload | Unreadable string | Uploaded dataframe

text \<open>The block under "Preview Data": the messages and the value of \<open>df\<close> after it.\<close>

definition preview_data :: "upload \<Rightarrow> ui_message list \<times> dataframe option" where
  "preview_data uploaded_file =
     (case uploaded_file of
        NoUpload \<Rightarrow> ([], None)
      | Unreadable reason \<Rightarrow> ([Error (''Error reading CSV: '' @ reason)], None)
      | Uploaded df \<Rightarrow>
          if ''company_name'' \<notin> set (columns df)
          then ([Error ''CSV must contain a 'company_name' column'',
                 Info (''Available columns: '' @ py_join '', '' (columns df))],
                Some df)
          else
            ([Success (''Found '' @ str_nat (length (rows df)) @ '' companies to process'')]
             @ (if length (rows df) > 10
                then [Info (''Showing first 10 rows. Total: '' @ str_nat (length (rows df))
                            @ '' companies'')]
                else []),
             Some df))"

text \<open>
  The messages of one run of \<open>main\<close> on an upload, and the frame handed to
  \<open>process_companies\<close>: \<open>None\<close> when it is not called.
\<close>

definition main_upload :: "upload \<Rightarrow> bool \<Rightarrow> ui_message list \<times> dataframe option" where
  "main_upload uploaded_file start_pressed =
     (case preview_data uploaded_file of
        (messages, df) \<Rightarrow>
          if df \<noteq> None \<and> ''company_name'' \<in> set (columns (the df))
          then (messages, if start_pressed then df else None)
          else if uploaded_file \<noteq> NoUpload
          then (messages @
                  [Warning ''Please upload a valid CSV file with a 'company_name' column to continue.''],
                None)
          else (messages, None))"

section \<open>Properties of a result, and worlds to run the code in\<close>

definition analysis_fields :: "string list" where
  "analysis_fields =
     [''summary'', ''target_customer'', ''industry'', ''company_size'', ''automation_pitch'']"

text \<open>A field of a dictionary that is present and holds a non-empty \<open>str\<close>.\<close>

definition filled :: "pydict \<Rightarrow> string \<Rightarrow> bool" where
  "filled d k = (case map_of d k of Some (PStr s) \<Rightarrow> s \<noteq> [] | _ \<Rightarrow> False)"

text \<open>An analysis with all five fields present and non-empty strings.\<close>

definition complete_analysis :: "pydict \<Rightarrow> bool" where
  "complete_analysis analysis = list_all (filled analysis) analysis_fields"

text \<open>A world without network, parser or input file, where every write succeeds.\<close>

definition offline :: world where
  "offline =
     \<lparr>head_status = (\<lambda>url. None),
      page_text = (\<lambda>url. None),
      gemini_reply = (\<lambda>url prompt. None),
      openai_reply = (\<lambda>key prompt. None),
      json_loads = (\<lambda>text. None),
      read_csv = (\<lambda>file. NotFound),
      to_csv = (\<lambda>file records. True),
      time_now = 0\<rparr>"

definition no_keys :: enricher where
  "no_keys = \<lparr>gemini_api_key = None, openai_api_key = None\<rparr>"

definition both_keys :: enricher where
  "both_keys = \<lparr>gemini_api_key = Some ''g-key'', openai_api_key = Some ''o-key''\<rparr>"

text \<open>Both backends answer with an empty JSON object, which \<open>json.loads\<close> reads as \<open>{}\<close>.\<close>

definition empty_object_world :: world where
  "empty_object_world =
     offline
       \<lparr>gemini_reply := (\<lambda>url prompt. Some ''{}''),
        openai_reply := (\<lambda>key prompt. Some ''{}''),
        json_loads := (\<lambda>text. if text = ''{}'' then Some [] else None)\<rparr>"

text \<open>Both backends answer with a fragment in braces that is no JSON.\<close>

definition malformed_world :: world where
  "malformed_world =
     offline
       \<lparr>gemini_reply := (\<lambda>url prompt. Some ''Sure: {summary: ?}''),
        openai_reply := (\<lambda>key prompt. Some ''Sure: {summary: ?}'')\<rparr>"

text \<open>A site that redirects: the probe of its URL gets status 301.\<close>

definition redirect_world :: world where
  "redirect_world = offline \<lparr>head_status := (\<lambda>url. Some 301)\<rparr>"






text \<open>The first backend answers with a JSON object that has one of the five fields.\<close>

definition one_field_world :: world where
  \<open>one_field_world =
     offline
       \<lparr>gemini_reply := (\<lambda>url prompt. Some ''Here it is: {"industry": "Retail"}''),
        openai_reply := (\<lambda>key prompt. Some ''Here it is: {"industry": "Retail"}''),
        json_loads := (\<lambda>text. if text = ''{"industry": "Retail"}''
                               then Some [(''industry'', PStr ''Retail'')] else None)\<rparr>\<close>

text \<open>An input file without the required column.\<close>

definition firms :: dataframe where
  "firms = \<lparr>columns = [''firm'', ''city''], rows = [(PInt 0, [PStr ''Acme'', PStr ''Berlin''])]\<rparr>"

definition firms_world :: world where
  "firms_world = offline \<lparr>read_csv := (\<lambda>file. if file = ''firms.csv'' then Table firms else NotFound)\<rparr>"


section \<open>Strings and dictionaries: basic facts\<close>

lemma starts_with_iff: "starts_with s p \<longleftrightarrow> (\<exists>t. s = p @ t)"
  by (induction s p rule: starts_with.induct) auto

lemma py_in_iff: "py_in k s \<longleftrightarrow> (\<exists>a b. s = a @ k @ b)"
proof (induction s)
  case Nil
  then show ?case by auto
next
  case (Cons c cs)
  show ?case
  proof
    assume "py_in k (c # cs)"
    then consider "starts_with (c # cs) k" | "py_in k cs" by auto
    then show "\<exists>a b. c # cs = a @ k @ b"
    proof cases
      case 1
      then obtain t where "c # cs = k @ t" by (auto simp: starts_with_iff)
      then have "c # cs = [] @ k @ t" by simp
      then show ?thesis by blast
    next
      case 2
      then obtain a b where "cs = a @ k @ b" using Cons.IH by auto
      then have "c # cs = (c # a) @ k @ b" by simp
      then show ?thesis by blast
    qed
  next
    assume "\<exists>a b. c # cs = a @ k @ b"
    then obtain a b where ab: "c # cs = a @ k @ b" by auto
    show "py_in k (c # cs)"
    proof (cases a)
      case Nil
      with ab have "starts_with (c # cs) k" by (auto simp: starts_with_iff)
      then show ?thesis by simp
    next
      case (Cons x a')
      with ab have "cs = a' @ k @ b" by simp
      then have "py_in k cs" using Cons.IH by blast
      then show ?thesis by simp
    qed
  qed
qed

lemma py_in_lower: "py_in k s \<Longrightarrow> py_in (py_lower k) (py_lower s)"
  unfolding py_in_iff py_lower_def by (metis map_append)

lemma py_in_join: "c \<in> set xs \<Longrightarrow> py_in c (py_join sep xs)"
proof (induction sep xs rule: py_join.induct)
  case (1 sep)
  then show ?case by simp
next
  case (2 sep x)
  then have "x = [] @ c @ []" by simp
  then show ?case unfolding py_in_iff py_join.simps by blast
next
  case (3 sep x y ys)
  show ?case
  proof (cases "c = x")
    case True
    then have "py_join sep (x # y # ys) = [] @ c @ (sep @ py_join sep (y # ys))" by simp
    then show ?thesis unfolding py_in_iff by blast
  next
    case False
    with 3 have "py_in c (py_join sep (y # ys))" by simp
    then obtain a b where "py_join sep (y # ys) = a @ c @ b" unfolding py_in_iff by auto
    then have "py_join sep (x # y # ys) = (x @ sep @ a) @ c @ b" by simp
    then show ?thesis unfolding py_in_iff by blast
  qed
qed

lemma py_in_prepend: "py_in c s \<Longrightarrow> py_in c (p @ s)"
  unfolding py_in_iff by (metis append.assoc)


lemma map_of_dict_set: "map_of (dict_set d k v) = (map_of d)(k \<mapsto> v)"
  by (induction d) auto


lemma map_of_dict_update:
  "k \<notin> fst ` set other \<Longrightarrow> map_of (dict_update d other) k = map_of d k"
  unfolding dict_update_def
  by (induction other arbitrary: d) (auto simp: map_of_dict_set)

section \<open>The accessibility probe\<close>

text \<open>
  C10: \<open>is_website_accessible\<close> answers true exactly when the HEAD probe returns status 200.
  A probe that raises, and every other status, the success codes 201 and 204 and the
  redirects 301 and 302 among them, give false.
\<close>

theorem is_website_accessible_iff_200:
  "(is_website_accessible w url \<longleftrightarrow> head_status w url = Some 200)
   \<and> (head_status w url = None \<longrightarrow> \<not> is_website_accessible w url)
   \<and> (\<forall>status. head_status w url = Some status \<and> status \<in> {201, 204, 301, 302}
         \<longrightarrow> \<not> is_website_accessible w url)"
  by (auto simp: is_website_accessible_def split: option.splits)

theorem is_website_accessible_iff_200_witness:
  "head_status redirect_world ''https://acme.com'' = Some 301
   \<and> \<not> is_website_accessible redirect_world ''https://acme.com''
   \<and> head_status offline ''https://acme.com'' = None
   \<and> \<not> is_website_accessible offline ''https://acme.com''"
  using is_website_accessible_iff_200 [of redirect_world "''https://acme.com''"]
        is_website_accessible_iff_200 [of offline "''https://acme.com''"]
  by (simp add: redirect_world_def offline_def)

section \<open>The rule-based fallback\<close>

lemma fallback_size_field:
  "dict_get (fallback_analysis n c) ''company_size'' d = PStr (estimate_size c)"
  by (simp add: fallback_analysis_def dict_get_def Let_def)

lemma fallback_industry_field:
  "dict_get (fallback_analysis n c) ''industry'' d = PStr (detect_industry c)"
  by (simp add: fallback_analysis_def dict_get_def Let_def)

text \<open>
  C6: the fallback sets \<open>company_size\<close> to \<open>large\<close> for a content of more than 2000
  characters, to \<open>medium\<close> for more than 1000 and to \<open>small\<close> otherwise; so a content
  of length 2500 is \<open>large\<close>, one of length 1500 \<open>medium\<close> and one of length 500 \<open>small\<close>.
\<close>

theorem fallback_company_size_thresholds:
  "dict_get (fallback_analysis company_name content) ''company_size'' PNone =
     PStr (if length content > 2000 then ''large''
           else if length content > 1000 then ''medium'' else ''small'')
   \<and> (length content = 2500 \<longrightarrow>
        dict_get (fallback_analysis company_name content) ''company_size'' PNone = PStr ''large'')
   \<and> (length content = 1500 \<longrightarrow>
        dict_get (fallback_analysis company_name content) ''company_size'' PNone = PStr ''medium'')
   \<and> (length content = 500 \<longrightarrow>
        dict_get (fallback_analysis company_name content) ''company_size'' PNone = PStr ''small'')"
  by (simp add: fallback_size_field estimate_size_def)

theorem fallback_company_size_thresholds_witness:
  "length (replicate 2500 (CHR ''a'')) = 2500
   \<and> dict_get (fallback_analysis (PStr ''Acme'') (replicate 2500 (CHR ''a''))) ''company_size'' PNone
       = PStr ''large''
   \<and> length (replicate 1500 (CHR ''a'')) = 1500
   \<and> dict_get (fallback_analysis (PStr ''Acme'') (replicate 1500 (CHR ''a''))) ''company_size'' PNone
       = PStr ''medium''
   \<and> length (replicate 500 (CHR ''a'')) = 500
   \<and> dict_get (fallback_analysis (PStr ''Acme'') (replicate 500 (CHR ''a''))) ''company_size'' PNone
       = PStr ''small''"
  using fallback_company_size_thresholds [of "PStr ''Acme''" "replicate 2500 (CHR ''a'')"]
        fallback_company_size_thresholds [of "PStr ''Acme''" "replicate 1500 (CHR ''a'')"]
        fallback_company_size_thresholds [of "PStr ''Acme''" "replicate 500 (CHR ''a'')"]
  by simp

section \<open>Content retrieval\<close>

lemma scrape_length: "length (scrape_website_content w url) \<le> 2000"
  by (simp add: scrape_website_content_def Let_def split: option.splits)

text \<open>
  C9: \<open>scrape_website_content\<close> returns at most 2000 characters for every URL, so the
  fallback never gives \<open>large\<close> as the \<open>company_size\<close> of a scraped content.
\<close>

theorem scrape_at_most_2000_never_large:
  "length (scrape_website_content w url) \<le> 2000
   \<and> dict_get (fallback_analysis company_name (scrape_website_content w url)) ''company_size'' PNone
       \<noteq> PStr ''large''"
  using scrape_length [of w url]
  by (simp add: fallback_size_field estimate_size_def)

section \<open>The model-backed analysis\<close>

text \<open>
  C4: when a backend is configured and its reply holds a fragment in braces that
  \<open>json.loads\<close> rejects, \<open>analyze_with_gemini\<close> and \<open>analyze_with_openai\<close> return what
  \<open>fallback_analysis\<close> returns on the same name and content.
\<close>

theorem malformed_json_falls_back:
  "(truthy (gemini_api_key e)
    \<and> gemini_reply w (gemini_url (the (gemini_api_key e))) (gemini_prompt company_name content)
        = Some body
    \<and> json_match body = Some fragment \<and> json_loads w fragment = None
    \<longrightarrow> analyze_with_gemini w e company_name content = fallback_analysis company_name content)
   \<and> (truthy (openai_api_key e)
    \<and> openai_reply w (the (openai_api_key e)) (openai_prompt company_name content) = Some body
    \<and> json_match body = Some fragment \<and> json_loads w fragment = None
    \<longrightarrow> analyze_with_openai w e company_name content = fallback_analysis company_name content)"
  by (simp add: analyze_with_gemini_def analyze_with_openai_def)

lemma json_match_example: "json_match ''Sure: {summary: ?}'' = Some ''{summary: ?}''"
  by (simp add: json_match_def)

theorem malformed_json_falls_back_witness:
  "truthy (gemini_api_key both_keys) \<and> truthy (openai_api_key both_keys)
   \<and> gemini_reply malformed_world (gemini_url (the (gemini_api_key both_keys)))
        (gemini_prompt (PStr ''Acme'') ''We sell tools'') = Some ''Sure: {summary: ?}''
   \<and> openai_reply malformed_world (the (openai_api_key both_keys))
        (openai_prompt (PStr ''Acme'') ''We sell tools'') = Some ''Sure: {summary: ?}''
   \<and> json_match ''Sure: {summary: ?}'' = Some ''{summary: ?}''
   \<and> json_loads malformed_world ''{summary: ?}'' = None
   \<and> analyze_with_gemini malformed_world both_keys (PStr ''Acme'') ''We sell tools''
       = fallback_analysis (PStr ''Acme'') ''We sell tools''
   \<and> analyze_with_openai malformed_world both_keys (PStr ''Acme'') ''We sell tools''
       = fallback_analysis (PStr ''Acme'') ''We sell tools''"
  using malformed_json_falls_back
          [of both_keys malformed_world "PStr ''Acme''" "''We sell tools''"
              "''Sure: {summary: ?}''" "''{summary: ?}''"]
        json_match_example
  by (simp add: malformed_world_def offline_def both_keys_def truthy_def)

section \<open>Enriching one company: the shape of the record\<close>














lemma enrich_company_never_raises: "\<exists>r. enrich_company w e n = Inr r"
  by (simp add: enrich_company_def split: prod.splits option.splits)




section \<open>The batch runner\<close>







section \<open>Website resolution on a string\<close>

text \<open>
  On a \<open>str\<close> the resolution never raises: it returns the first candidate, in the order
  of the patterns, whose probe succeeds, and its best guess if none does; the URL is not
  empty and it is the \<open>website\<close> of the record.
\<close>

lemma first_accessible_result:
  "first_accessible w ps = Some url \<Longrightarrow>
     \<exists>p \<in> set ps. url = ''https://'' @ p \<and> is_website_accessible w url"
  by (induction ps) (auto simp: Let_def split: if_splits)

lemma first_accessible_first:
  "first_accessible w ps = List.find (is_website_accessible w) (map (\<lambda>p. ''https://'' @ p) ps)"
  by (induction ps) (auto simp: Let_def)

lemma find_company_website_str:
  "find_company_website w (PStr s) =
     Inr (case List.find (is_website_accessible w)
                 (map (\<lambda>p. ''https://'' @ p) (domain_patterns (clean_name_of s))) of
            Some url \<Rightarrow> url
          | None \<Rightarrow> ''https://www.'' @ squash (clean_name_of s) @ ''.com'')"
  by (simp add: find_company_website_def find_website_try_def Let_def first_accessible_first
           split: option.splits)

lemma find_company_website_str_nonempty:
  "\<exists>url. find_company_website w (PStr s) = Inr url \<and> url \<noteq> []"
proof -
  have "find_website_try w (PStr s) = Inr url \<Longrightarrow> url \<noteq> []" for url
    by (auto simp: find_website_try_def Let_def split: option.splits
             dest: first_accessible_result)
  moreover have "\<exists>url. find_website_try w (PStr s) = Inr url"
    by (simp add: find_website_try_def Let_def split: option.splits)
  ultimately show ?thesis
    by (auto simp: find_company_website_def)
qed

lemma enrich_company_str_website:
  assumes "enrich_company w e (PStr s) = Inr r"
  shows "\<exists>url. find_company_website w (PStr s) = Inr url \<and> url \<noteq> []
               \<and> map_of r ''website'' = Some (PStr url)"
proof -
  obtain url where u: "find_company_website w (PStr s) = Inr url" and ne: "url \<noteq> []"
    using find_company_website_str_nonempty by blast
  let ?r1 = "dict_set (initial_result (PStr s)) ''website'' (PStr url)"
  have w1: "map_of ?r1 ''website'' = Some (PStr url)" by (simp add: map_of_dict_set)
  have m: "map_of (merge_analysis ?r1 a) ''website'' = Some (PStr url)" for a
    unfolding merge_analysis_def using w1 by (subst map_of_dict_update) simp_all
  have "r = merge_analysis ?r1 (if scrape_website_content w url \<noteq> [] then
            (if truthy (gemini_api_key e)
                            then analyze_with_gemini w e (PStr s) (scrape_website_content w url)
                          else if truthy (openai_api_key e)
                            then analyze_with_openai w e (PStr s) (scrape_website_content w url)
                          else fallback_analysis (PStr s) (scrape_website_content w url))
            else fallback_analysis (PStr s) s)"
    using assms u ne
    by (auto simp: enrich_company_def enrich_try_def Let_def fallback_on_name_def)
  with m u ne show ?thesis by simp
qed

section \<open>A name that is no string\<close>

text \<open>
  \<open>process_csv\<close> hands \<open>row['company_name']\<close> to \<open>enrich_company\<close> as pandas read
  it: a blank cell is the float \<open>nan\<close>, a cell of a numeric column a number.
\<close>

lemma enrich_try_str_no_error: "fst (enrich_try w e (PStr s) r) = None"
  by (simp add: enrich_try_def Let_def fallback_on_name_def find_company_website_str)

lemma enrich_try_non_str:
  "\<forall>s. n \<noteq> PStr s \<Longrightarrow> enrich_try w e n r = (Some AttributeError, r)"
  by (cases n)
     (simp_all add: enrich_try_def find_company_website_def find_website_try_def
        find_website_handler_def)

text \<open>
  C2: \<open>enrich_company\<close> raises nothing, and its \<open>except\<close> handler is to return a
  degraded record without an empty field. Run on the name of a blank cell, where website
  resolution raises, it returns the record below: five fields carry the handler's sentinel
  strings, and \<open>website\<close> is still the empty string it was initialised with.
\<close>

theorem enrich_company_blank_name_website_empty:
  "enrich_company w e PNaN =
     Inr [(''company_name'', PNaN),
          (''website'', PStr ''''),
          (''industry'', PStr ''Unknown''),
          (''company_size'', PStr ''Unknown''),
          (''summary_from_llm'', PStr ''Error processing nan''),
          (''target_customer'', PStr ''Unknown''),
          (''automation_pitch_from_llm'', PStr ''Please contact us for custom solution'')]"
  by (simp add: enrich_company_def enrich_try_def find_company_website_def find_website_try_def
        find_website_handler_def initial_result_def enrich_handler_def dict_update_def)

text \<open>
  C7: \<open>find_company_website\<close> is to return a URL for every name. On the name of a
  blank cell its \<open>try\<close> raises \<open>TypeError\<close>, and the handler, which builds the
  best guess with \<open>company_name.lower()\<close>, raises \<open>AttributeError\<close> in turn:
  \<open>find_company_website\<close> fails, and the record of \<open>enrich_company\<close> has an empty
  \<open>website\<close>.
\<close>

theorem find_company_website_blank_name_raises:
  "find_website_try w PNaN = Inl TypeError
   \<and> find_company_website w PNaN = Inl AttributeError
   \<and> (\<exists>r. enrich_company w e PNaN = Inr r \<and> map_of r ''website'' = Some (PStr ''''))"
  by (simp add: enrich_company_def enrich_try_def find_company_website_def find_website_try_def
        find_website_handler_def initial_result_def enrich_handler_def dict_update_def)

section \<open>The fields of an analysis\<close>

lemma detect_industry_nonempty: "detect_industry c \<noteq> []"
  by (simp add: detect_industry_def Let_def)

lemma estimate_size_nonempty: "estimate_size c \<noteq> []"
  by (simp add: estimate_size_def)

lemma fallback_complete: "complete_analysis (fallback_analysis n c)"
  by (simp add: complete_analysis_def analysis_fields_def filled_def fallback_analysis_def
        Let_def detect_industry_nonempty estimate_size_nonempty)

lemma fallback_keys: "map fst (fallback_analysis n c) = analysis_fields"
  by (simp add: fallback_analysis_def analysis_fields_def Let_def)

text \<open>
  C3, as the code has it: \<open>fallback_analysis\<close> returns, for every name and content, the
  empty ones included, the five fields \<open>summary\<close>, \<open>target_customer\<close>, \<open>industry\<close>,
  \<open>company_size\<close> and \<open>automation_pitch\<close>, each a non-empty string.
  \<open>analyze_with_gemini\<close> and \<open>analyze_with_openai\<close> always return a dictionary: when the
  backend is configured and \<open>json.loads\<close> accepts the fragment in braces of its reply,
  the object read from it, as it is and whatever its fields; in every other case the
  result of \<open>fallback_analysis\<close>. Without a key they return the result of
  \<open>fallback_analysis\<close>.
\<close>

theorem analysis_fallback_complete_backend_unchecked:
  "complete_analysis (fallback_analysis company_name content)
   \<and> map fst (fallback_analysis company_name content) =
       [''summary'', ''target_customer'', ''industry'', ''company_size'', ''automation_pitch'']
   \<and> (truthy (gemini_api_key e)
       \<and> gemini_reply w (gemini_url (the (gemini_api_key e)))
            (gemini_prompt company_name content) = Some body
       \<and> json_match body = Some fragment
       \<and> json_loads w fragment = Some analysis
       \<longrightarrow> analyze_with_gemini w e company_name content = analysis)
   \<and> (truthy (openai_api_key e)
       \<and> openai_reply w (the (openai_api_key e))
            (openai_prompt company_name content) = Some body
       \<and> json_match body = Some fragment
       \<and> json_loads w fragment = Some analysis
       \<longrightarrow> analyze_with_openai w e company_name content = analysis)
   \<and> (analyze_with_gemini w e company_name content = fallback_analysis company_name content
       \<or> (\<exists>body fragment.
             truthy (gemini_api_key e)
             \<and> gemini_reply w (gemini_url (the (gemini_api_key e)))
                  (gemini_prompt company_name content) = Some body
             \<and> json_match body = Some fragment
             \<and> json_loads w fragment = Some (analyze_with_gemini w e company_name content)))
   \<and> (analyze_with_openai w e company_name content = fallback_analysis company_name content
       \<or> (\<exists>body fragment.
             truthy (openai_api_key e)
             \<and> openai_reply w (the (openai_api_key e))
                  (openai_prompt company_name content) = Some body
             \<and> json_match body = Some fragment
             \<and> json_loads w fragment = Some (analyze_with_openai w e company_name content)))
   \<and> analyze_with_gemini w (e\<lparr>gemini_api_key := None\<rparr>) company_name content
       = fallback_analysis company_name content
   \<and> analyze_with_openai w (e\<lparr>openai_api_key := None\<rparr>) company_name content
       = fallback_analysis company_name content"
proof -
  have pg: "truthy (gemini_api_key e)
       \<and> gemini_reply w (gemini_url (the (gemini_api_key e)))
            (gemini_prompt company_name content) = Some body
       \<and> json_match body = Some fragment
       \<and> json_loads w fragment = Some analysis
       \<longrightarrow> analyze_with_gemini w e company_name content = analysis"
    by (simp add: analyze_with_gemini_def)
  have po: "truthy (openai_api_key e)
       \<and> openai_reply w (the (openai_api_key e))
            (openai_prompt company_name content) = Some body
       \<and> json_match body = Some fragment
       \<and> json_loads w fragment = Some analysis
       \<longrightarrow> analyze_with_openai w e company_name content = analysis"
    by (simp add: analyze_with_openai_def)
  have g: "analyze_with_gemini w e company_name content = fallback_analysis company_name content
       \<or> (\<exists>body fragment.
             truthy (gemini_api_key e)
             \<and> gemini_reply w (gemini_url (the (gemini_api_key e)))
                  (gemini_prompt company_name content) = Some body
             \<and> json_match body = Some fragment
             \<and> json_loads w fragment = Some (analyze_with_gemini w e company_name content))"
    by (auto simp: analyze_with_gemini_def split: option.splits)
  have o: "analyze_with_openai w e company_name content = fallback_analysis company_name content
       \<or> (\<exists>body fragment.
             truthy (openai_api_key e)
             \<and> openai_reply w (the (openai_api_key e))
                  (openai_prompt company_name content) = Some body
             \<and> json_match body = Some fragment
             \<and> json_loads w fragment = Some (analyze_with_openai w e company_name content))"
    by (auto simp: analyze_with_openai_def split: option.splits)
  have ng: "analyze_with_gemini w (e\<lparr>gemini_api_key := None\<rparr>) company_name content
       = fallback_analysis company_name content"
    by (simp add: analyze_with_gemini_def truthy_def)
  have no: "analyze_with_openai w (e\<lparr>openai_api_key := None\<rparr>) company_name content
       = fallback_analysis company_name content"
    by (simp add: analyze_with_openai_def truthy_def)
  from fallback_complete fallback_keys [unfolded analysis_fields_def] pg po g o ng no
  show ?thesis by blast
qed

lemma json_match_one_field:
  \<open>json_match ''Here it is: {"industry": "Retail"}'' = Some ''{"industry": "Retail"}''\<close>
  by (simp add: json_match_def)

theorem analysis_fallback_complete_backend_unchecked_witness:
  \<open>truthy (gemini_api_key both_keys) \<and> truthy (openai_api_key both_keys)
   \<and> gemini_reply one_field_world (gemini_url (the (gemini_api_key both_keys)))
        (gemini_prompt (PStr ''Acme'') ''We sell tools'')
       = Some ''Here it is: {"industry": "Retail"}''
   \<and> openai_reply one_field_world (the (openai_api_key both_keys))
        (openai_prompt (PStr ''Acme'') ''We sell tools'')
       = Some ''Here it is: {"industry": "Retail"}''
   \<and> json_match ''Here it is: {"industry": "Retail"}'' = Some ''{"industry": "Retail"}''
   \<and> json_loads one_field_world ''{"industry": "Retail"}'' = Some [(''industry'', PStr ''Retail'')]
   \<and> analyze_with_gemini one_field_world both_keys (PStr ''Acme'') ''We sell tools''
       = [(''industry'', PStr ''Retail'')]
   \<and> analyze_with_openai one_field_world both_keys (PStr ''Acme'') ''We sell tools''
       = [(''industry'', PStr ''Retail'')]\<close>
  using analysis_fallback_complete_backend_unchecked
          [of "PStr ''Acme''" "''We sell tools''" both_keys one_field_world
              \<open>''Here it is: {"industry": "Retail"}''\<close> \<open>''{"industry": "Retail"}''\<close>
              "[(''industry'', PStr ''Retail'')]"]
        json_match_one_field
  by (simp add: one_field_world_def offline_def both_keys_def truthy_def)

text \<open>
  A backend that replies with the empty JSON object: the analysis functions return \<open>{}\<close>,
  which has none of the five fields.
\<close>

theorem analyze_empty_object_counterexample:
  "analyze_with_gemini empty_object_world both_keys (PStr ''Acme'') ''We sell tools'' = []
   \<and> \<not> complete_analysis
         (analyze_with_gemini empty_object_world both_keys (PStr ''Acme'') ''We sell tools'')
   \<and> \<not> complete_analysis
         (analyze_with_openai empty_object_world both_keys (PStr ''Acme'') ''We sell tools'')"
  by (simp add: analyze_with_gemini_def analyze_with_openai_def empty_object_world_def
        offline_def both_keys_def truthy_def json_match_def complete_analysis_def
        analysis_fields_def filled_def)

section \<open>The industry of the fallback\<close>

lemma lower_keywords:
  "py_lower ''software'' = ''software''" "py_lower ''medical'' = ''medical''"
  by (simp_all add: py_lower_def lower_char_def)

lemma detect_software:
  assumes "py_in ''software'' c"
  shows "detect_industry c = ''Technology''"
proof -
  have "py_in ''software'' (py_lower c)"
    using py_in_lower [OF assms] by (simp only: lower_keywords)
  then show ?thesis by (simp add: detect_industry_def any_keyword_def Let_def)
qed

lemma detect_medical:
  assumes "py_in ''medical'' c"
    and "\<not> any_keyword [''software'', ''tech'', ''ai'', ''saas'', ''app''] (py_lower c)"
    and "\<not> any_keyword [''financial'', ''banking'', ''fintech''] (py_lower c)"
  shows "detect_industry c = ''Healthcare''"
proof -
  have "py_in ''medical'' (py_lower c)"
    using py_in_lower [OF assms(1)] by (simp only: lower_keywords)
  then have "any_keyword [''health'', ''medical'', ''healthcare''] (py_lower c)"
    by (simp add: any_keyword_def)
  with assms(2,3) show ?thesis by (simp add: detect_industry_def Let_def)
qed

text \<open>
  C5, as the code has it: the fallback classifies a content that contains \<open>software\<close> as
  \<open>Technology\<close>; a content that contains \<open>medical\<close> as \<open>Healthcare\<close> when its lower-cased
  form contains no technology keyword and no finance keyword; and a content whose
  lower-cased form contains no keyword at all as \<open>Business Services\<close>. The keyword sets are
  tested on the lower-cased content in the order technology, finance, healthcare, retail,
  and the first set with a match decides.
\<close>

theorem fallback_industry_priority:
  "(py_in ''software'' content \<longrightarrow>
      dict_get (fallback_analysis company_name content) ''industry'' PNone = PStr ''Technology'')
   \<and> (py_in ''medical'' content
       \<and> \<not> any_keyword [''software'', ''tech'', ''ai'', ''saas'', ''app''] (py_lower content)
       \<and> \<not> any_keyword [''financial'', ''banking'', ''fintech''] (py_lower content) \<longrightarrow>
      dict_get (fallback_analysis company_name content) ''industry'' PNone = PStr ''Healthcare'')
   \<and> (\<not> any_keyword [''software'', ''tech'', ''ai'', ''saas'', ''app''] (py_lower content)
       \<and> \<not> any_keyword [''financial'', ''banking'', ''fintech''] (py_lower content)
       \<and> \<not> any_keyword [''health'', ''medical'', ''healthcare''] (py_lower content)
       \<and> \<not> any_keyword [''retail'', ''ecommerce'', ''shopping''] (py_lower content) \<longrightarrow>
      dict_get (fallback_analysis company_name content) ''industry'' PNone
        = PStr ''Business Services'')
   \<and> dict_get (fallback_analysis company_name content) ''industry'' PNone =
       PStr (if any_keyword [''software'', ''tech'', ''ai'', ''saas'', ''app''] (py_lower content)
               then ''Technology''
             else if any_keyword [''financial'', ''banking'', ''fintech''] (py_lower content)
               then ''Finance''
             else if any_keyword [''health'', ''medical'', ''healthcare''] (py_lower content)
               then ''Healthcare''
             else if any_keyword [''retail'', ''ecommerce'', ''shopping''] (py_lower content)
               then ''Retail''
             else ''Business Services'')"
proof -
  have "dict_get (fallback_analysis company_name content) ''industry'' PNone =
       PStr (if any_keyword [''software'', ''tech'', ''ai'', ''saas'', ''app''] (py_lower content)
               then ''Technology''
             else if any_keyword [''financial'', ''banking'', ''fintech''] (py_lower content)
               then ''Finance''
             else if any_keyword [''health'', ''medical'', ''healthcare''] (py_lower content)
               then ''Healthcare''
             else if any_keyword [''retail'', ''ecommerce'', ''shopping''] (py_lower content)
               then ''Retail''
             else ''Business Services'')"
    unfolding fallback_industry_field by (simp add: detect_industry_def Let_def)
  moreover have "py_in ''software'' content \<longrightarrow>
      dict_get (fallback_analysis company_name content) ''industry'' PNone = PStr ''Technology''"
    by (simp add: fallback_industry_field detect_software)
  moreover have "py_in ''medical'' content
       \<and> \<not> any_keyword [''software'', ''tech'', ''ai'', ''saas'', ''app''] (py_lower content)
       \<and> \<not> any_keyword [''financial'', ''banking'', ''fintech''] (py_lower content) \<longrightarrow>
      dict_get (fallback_analysis company_name content) ''industry'' PNone = PStr ''Healthcare''"
    by (simp add: fallback_industry_field detect_medical)
  moreover have "\<not> any_keyword [''software'', ''tech'', ''ai'', ''saas'', ''app''] (py_lower content)
       \<and> \<not> any_keyword [''financial'', ''banking'', ''fintech''] (py_lower content)
       \<and> \<not> any_keyword [''health'', ''medical'', ''healthcare''] (py_lower content)
       \<and> \<not> any_keyword [''retail'', ''ecommerce'', ''shopping''] (py_lower content) \<longrightarrow>
      dict_get (fallback_analysis company_name content) ''industry'' PNone
        = PStr ''Business Services''"
    by (simp add: fallback_industry_field detect_industry_def Let_def)
  ultimately show ?thesis by blast
qed

theorem fallback_industry_priority_witness:
  "py_in ''software'' ''We write software''
   \<and> dict_get (fallback_analysis (PStr ''Acme'') ''We write software'') ''industry'' PNone
       = PStr ''Technology''
   \<and> py_in ''medical'' ''A medical centre''
   \<and> \<not> any_keyword [''software'', ''tech'', ''ai'', ''saas'', ''app''] (py_lower ''A medical centre'')
   \<and> \<not> any_keyword [''financial'', ''banking'', ''fintech''] (py_lower ''A medical centre'')
   \<and> dict_get (fallback_analysis (PStr ''Acme'') ''A medical centre'') ''industry'' PNone
       = PStr ''Healthcare''
   \<and> \<not> any_keyword [''software'', ''tech'', ''ai'', ''saas'', ''app''] (py_lower ''Plumbing'')
   \<and> \<not> any_keyword [''financial'', ''banking'', ''fintech''] (py_lower ''Plumbing'')
   \<and> \<not> any_keyword [''health'', ''medical'', ''healthcare''] (py_lower ''Plumbing'')
   \<and> \<not> any_keyword [''retail'', ''ecommerce'', ''shopping''] (py_lower ''Plumbing'')
   \<and> dict_get (fallback_analysis (PStr ''Acme'') ''Plumbing'') ''industry'' PNone
       = PStr ''Business Services''"
proof -
  have s: "py_in ''software'' ''We write software''" by code_simp
  have m: "py_in ''medical'' ''A medical centre''
   \<and> \<not> any_keyword [''software'', ''tech'', ''ai'', ''saas'', ''app''] (py_lower ''A medical centre'')
   \<and> \<not> any_keyword [''financial'', ''banking'', ''fintech''] (py_lower ''A medical centre'')"
    by code_simp
  have p: "\<not> any_keyword [''software'', ''tech'', ''ai'', ''saas'', ''app''] (py_lower ''Plumbing'')
   \<and> \<not> any_keyword [''financial'', ''banking'', ''fintech''] (py_lower ''Plumbing'')
   \<and> \<not> any_keyword [''health'', ''medical'', ''healthcare''] (py_lower ''Plumbing'')
   \<and> \<not> any_keyword [''retail'', ''ecommerce'', ''shopping''] (py_lower ''Plumbing'')"
    by code_simp
  from s m p
       fallback_industry_priority [of "''We write software''" "PStr ''Acme''"]
       fallback_industry_priority [of "''A medical centre''" "PStr ''Acme''"]
       fallback_industry_priority [of "''Plumbing''" "PStr ''Acme''"]
  show ?thesis by blast
qed

text \<open>
  A content with \<open>medical\<close> in it that is not classified as \<open>Healthcare\<close>: the
  technology keywords are tested first, and \<open>software\<close> is one of them.
\<close>

theorem fallback_medical_software_counterexample:
  "py_in ''medical'' ''medical software''
   \<and> dict_get (fallback_analysis (PStr ''Acme'') ''medical software'') ''industry'' PNone
       = PStr ''Technology''
   \<and> dict_get (fallback_analysis (PStr ''Acme'') ''medical software'') ''industry'' PNone
       \<noteq> PStr ''Healthcare''"
  by code_simp

section \<open>An input without the required column\<close>

text \<open>
  C8, as the code has it: for a table without the \<open>company_name\<close> column,
  \<open>process_csv\<close> raises \<open>ValueError\<close> with the fixed message
  \<open>CSV must contain 'company_name' column\<close> before it enriches a record or writes a file,
  and the web interface shows its error message, lists every column of the table after
  \<open>Available columns:\<close> and does not start \<open>process_companies\<close>.
\<close>

theorem missing_column_halts_before_enrichment:
  assumes "''company_name'' \<notin> set (columns df)"
  shows "(read_csv w input_file = Table df \<longrightarrow>
            process_csv w e input_file output_file =
              (Raised (ValueError ''CSV must contain 'company_name' column''), []))
         \<and> main_upload (Uploaded df) start_pressed =
             ([Error ''CSV must contain a 'company_name' column'',
               Info (''Available columns: '' @ py_join '', '' (columns df)),
               Warning ''Please upload a valid CSV file with a 'company_name' column to continue.''],
              None)
         \<and> (\<forall>c \<in> set (columns df).
               py_in c (''Available columns: '' @ py_join '', '' (columns df)))"
proof -
  have p: "read_csv w input_file = Table df \<longrightarrow>
            process_csv w e input_file output_file =
              (Raised (ValueError ''CSV must contain 'company_name' column''), [])"
    using assms by (simp add: process_csv_def Let_def)
  have u: "main_upload (Uploaded df) start_pressed =
             ([Error ''CSV must contain a 'company_name' column'',
               Info (''Available columns: '' @ py_join '', '' (columns df)),
               Warning ''Please upload a valid CSV file with a 'company_name' column to continue.''],
              None)"
    using assms by (simp add: main_upload_def preview_data_def)
  have l: "\<forall>c \<in> set (columns df).
               py_in c (''Available columns: '' @ py_join '', '' (columns df))"
    by (intro ballI py_in_prepend py_in_join)
  from p u l show ?thesis by blast
qed

theorem missing_column_halts_before_enrichment_witness:
  "''company_name'' \<notin> set (columns firms)
   \<and> read_csv firms_world ''firms.csv'' = Table firms
   \<and> process_csv firms_world no_keys ''firms.csv'' None =
       (Raised (ValueError ''CSV must contain 'company_name' column''), [])
   \<and> main_upload (Uploaded firms) True =
       ([Error ''CSV must contain a 'company_name' column'',
         Info ''Available columns: firm, city'',
         Warning ''Please upload a valid CSV file with a 'company_name' column to continue.''],
        None)
   \<and> py_in ''firm'' ''Available columns: firm, city''
   \<and> py_in ''city'' ''Available columns: firm, city''"
proof -
  have c: "''company_name'' \<notin> set (columns firms)" by (simp add: firms_def)
  have r: "read_csv firms_world ''firms.csv'' = Table firms"
    by (simp add: firms_world_def offline_def)
  have j: "''Available columns: '' @ py_join '', '' (columns firms) = ''Available columns: firm, city''"
    by (simp add: firms_def)
  have s: "set (columns firms) = {''firm'', ''city''}" by (simp add: firms_def)
  from missing_column_halts_before_enrichment
         [OF c, of firms_world "''firms.csv''" no_keys None True]
       c r
  show ?thesis unfolding j s by simp
qed

text \<open>
  The error that \<open>process_csv\<close> raises for a table with the columns \<open>firm\<close> and
  \<open>city\<close> does not name the column \<open>firm\<close>.
\<close>

theorem process_csv_error_omits_columns_counterexample:
  "''company_name'' \<notin> set (columns firms)
   \<and> ''firm'' \<in> set (columns firms)
   \<and> process_csv firms_world no_keys ''firms.csv'' None =
       (Raised (ValueError ''CSV must contain 'company_name' column''), [])
   \<and> \<not> py_in ''firm'' ''CSV must contain 'company_name' column''"
  by code_simp

end
